theory Spec2Isabelle
  imports Complex_Main
begin

section \<open>Data model\<close>

text \<open>
  The program (\<^verbatim>\<open>src/main.py\<close>) is a single script: two uploaded CSV files are read
  with pandas, cleaned, joined on the year, charted, and passed to two statsmodels
  fits whose forecasts are charted and tabulated; the whole body sits in one
  \<^verbatim>\<open>try ... except Exception\<close>.

  A CSV field is modelled as the reader classifies it: an integer literal, a numeric
  literal that is not an integer literal (\<^verbatim>\<open>2015.5\<close>, \<^verbatim>\<open>2015.0\<close>), an empty field
  (read as NaN), or any other text. Floating-point values are carried as reals: the
  script never computes with them, it only tests whether they are missing. Years are
  Python integers, taken as unbounded.
\<close>

datatype cell = CInt int | CFloat real | CText string | CEmpty

text \<open>
  A line of either file has two fields; a file is the list of its lines, header lines
  included. Files of another shape (ragged lines, one or three columns) are outside
  the model.
\<close>

type_synonym line = "cell \<times> cell"
type_synonym csv = "line list"

text \<open>The exceptions the script can meet, all of them subclasses of \<^verbatim>\<open>Exception\<close>.\<close>

datatype error =
    EmptyDataError
  | ValueError
  | IndexError
  | LibraryError string

text \<open>The column types pandas infers when it reads a column.\<close>

datatype dtype = Int64 | Float64 | Object

text \<open>A cleaned source: rows of (year, value) in index order.\<close>

type_synonym series = "(int \<times> real) list"

text \<open>The joined table \<^verbatim>\<open>df\<close>: rows of (Year, CPIH, GDP\_Growth).\<close>

type_synonym frame = "(int \<times> real \<times> real) list"

section \<open>Loading (main.py lines 17 to 29)\<close>

fun is_int :: "cell \<Rightarrow> bool" where
  "is_int (CInt i) = True"
| "is_int c = False"

fun is_float :: "cell \<Rightarrow> bool" where
  "is_float (CFloat r) = True"
| "is_float c = False"

fun is_text :: "cell \<Rightarrow> bool" where
  "is_text (CText s) = True"
| "is_text c = False"

text \<open>
  \<^verbatim>\<open>pd.to_numeric(col, errors='coerce')\<close> on one field: a number stays, anything else
  becomes NaN (\<open>None\<close>).
\<close>

fun to_numeric :: "cell \<Rightarrow> real option" where
  "to_numeric (CInt i) = Some (of_int i)"
| "to_numeric (CFloat r) = Some r"
| "to_numeric (CText s) = None"
| "to_numeric CEmpty = None"

text \<open>
  \<^verbatim>\<open>pd.read_csv(f, skiprows=k)\<close>: the first \<open>k\<close> lines are skipped, the next line names
  the columns, the rest is data. With no line left for the column names the reader
  raises \<^verbatim>\<open>EmptyDataError\<close>.
\<close>

definition read_csv :: "nat \<Rightarrow> csv \<Rightarrow> error + line list" where
  "read_csv k f = (case drop k f of [] \<Rightarrow> Inl EmptyDataError | h # rows \<Rightarrow> Inr rows)"

text \<open>
  The type of a column as read: all integer literals give \<^verbatim>\<open>int64\<close>; numbers and empty
  fields give \<^verbatim>\<open>float64\<close>; any text makes the column \<^verbatim>\<open>object\<close>, its fields kept as
  strings. A column without rows is \<^verbatim>\<open>object\<close>.
\<close>

definition infer_dtype :: "cell list \<Rightarrow> dtype" where
  "infer_dtype cs =
     (if cs = [] then Object
      else if list_all is_int cs then Int64
      else if list_all (\<lambda>c. \<not> is_text c) cs then Float64
      else Object)"

text \<open>Conversion of a float to an integer truncates towards zero.\<close>

definition trunc :: "real \<Rightarrow> int" where
  "trunc r = (if 0 \<le> r then \<lfloor>r\<rfloor> else \<lceil>r\<rceil>)"

text \<open>
  \<^verbatim>\<open>.astype(int)\<close> on one field of a column of the given type. In a \<^verbatim>\<open>float64\<close> column
  a number is truncated and NaN raises; in an \<^verbatim>\<open>object\<close> column the field is a string
  handed to \<^verbatim>\<open>int()\<close>, which accepts integer literals only.
\<close>

fun cell_to_int :: "dtype \<Rightarrow> cell \<Rightarrow> error + int" where
  "cell_to_int d (CInt i) = Inr i"
| "cell_to_int Float64 (CFloat r) = Inr (trunc r)"
| "cell_to_int d c = Inl ValueError"

text \<open>\<^verbatim>\<open>df['Year'] = df['Year'].astype(int)\<close>: the first field that fails raises.\<close>

fun astype_int :: "dtype \<Rightarrow> line list \<Rightarrow> error + (int \<times> cell) list" where
  "astype_int d [] = Inr []"
| "astype_int d ((y, v) # rows) =
     (case cell_to_int d y of
        Inl e \<Rightarrow> Inl e
      | Inr i \<Rightarrow> (case astype_int d rows of
                   Inl e \<Rightarrow> Inl e
                 | Inr rows' \<Rightarrow> Inr ((i, v) # rows')))"

text \<open>
  \<^verbatim>\<open>df[col] = pd.to_numeric(df[col], errors='coerce')\<close> followed by \<^verbatim>\<open>df.dropna()\<close>:
  rows whose value is not a number are dropped.
\<close>

fun coerce_dropna :: "(int \<times> cell) list \<Rightarrow> series" where
  "coerce_dropna [] = []"
| "coerce_dropna ((y, v) # rows) =
     (case to_numeric v of
        None \<Rightarrow> coerce_dropna rows
      | Some x \<Rightarrow> (y, x) # coerce_dropna rows)"

text \<open>
  \<^verbatim>\<open>.set_index('Year').sort_index()\<close>. The order pandas gives to rows of the same year
  is not fixed by its default sort; here they keep their order, and no statement
  below depends on it.
\<close>

definition sort_index :: "series \<Rightarrow> series" where
  "sort_index rows = sort_key fst rows"

text \<open>
  Lines 17 to 22. The filter of line 19 keeps the rows whose year is a number; the
  column keeps the type it was read with.
\<close>

definition load_cpih :: "csv \<Rightarrow> error + series" where
  "load_cpih f =
     (case read_csv 6 f of
        Inl e \<Rightarrow> Inl e
      | Inr rows \<Rightarrow>
          (let d = infer_dtype (map fst rows);
               kept = filter (\<lambda>(y, v). to_numeric y \<noteq> None) rows
           in case astype_int d kept of
                Inl e \<Rightarrow> Inl e
              | Inr rows' \<Rightarrow> Inr (sort_index (coerce_dropna rows'))))"

text \<open>Lines 25 to 29: the same steps without the skipped lines and without the filter.\<close>

definition load_gdp :: "csv \<Rightarrow> error + series" where
  "load_gdp f =
     (case read_csv 0 f of
        Inl e \<Rightarrow> Inl e
      | Inr rows \<Rightarrow>
          (let d = infer_dtype (map fst rows)
           in case astype_int d rows of
                Inl e \<Rightarrow> Inl e
              | Inr rows' \<Rightarrow> Inr (sort_index (coerce_dropna rows'))))"

section \<open>Alignment (main.py line 32)\<close>

text \<open>
  \<^verbatim>\<open>df_cpih.join(df_gdp, how='inner')\<close>: every row of the left table is paired with
  every row of the right table that has its year, in the order of the left table.
\<close>

fun join_inner :: "series \<Rightarrow> series \<Rightarrow> frame" where
  "join_inner [] r = []"
| "join_inner ((y, c) # l) r =
     map (\<lambda>(y', g). (y, c, g)) (filter (\<lambda>(y', g). y' = y) r) @ join_inner l r"

definition index :: "frame \<Rightarrow> int list" where
  "index df = map fst df"

text \<open>Lines 17 to 32 together: the first loader that raises ends the block.\<close>

definition align :: "csv \<Rightarrow> csv \<Rightarrow> error + frame" where
  "align cpih_file gdp_file =
     (case load_cpih cpih_file of
        Inl e \<Rightarrow> Inl e
      | Inr df_cpih \<Rightarrow>
          (case load_gdp gdp_file of
             Inl e \<Rightarrow> Inl e
           | Inr df_gdp \<Rightarrow> Inr (join_inner df_cpih df_gdp)))"

section \<open>Forecasting (main.py lines 38 to 63)\<close>

text \<open>
  The values of the slider and of the six number inputs. The widgets bound them
  (horizon 1 to 10, orders 0 to 5 and 0 to 2); nothing below needs the bounds.
\<close>

record config =
  n_years :: int
  cpih_order :: "int \<times> int \<times> int"
  gdp_order :: "int \<times> int \<times> int"

text \<open>
  The two statsmodels calls are not code of this program; they are parameters.
  \<open>arima_forecast\<close> stands for lines 51 to 53 (\<^verbatim>\<open>ARIMA(...).fit().forecast(steps)\<close>):
  from the GDP column, the order and the horizon it gives the point forecasts or
  raises. \<open>sarimax_forecast\<close> stands for lines 57 to 62: from the CPIH column, the GDP
  column, the order, the horizon and the future GDP values it gives the predicted
  means and the rows (lower, upper) of \<^verbatim>\<open>conf_int()\<close>, or raises.
\<close>

record library =
  arima_forecast :: "series \<Rightarrow> int \<times> int \<times> int \<Rightarrow> int \<Rightarrow> error + real list"
  sarimax_forecast ::
    "series \<Rightarrow> series \<Rightarrow> int \<times> int \<times> int \<Rightarrow> int \<Rightarrow> real list
       \<Rightarrow> error + real list \<times> (real \<times> real) list"

definition col_cpih :: "frame \<Rightarrow> series" where
  "col_cpih df = map (\<lambda>(y, c, g). (y, c)) df"

definition col_gdp :: "frame \<Rightarrow> series" where
  "col_gdp df = map (\<lambda>(y, c, g). (y, g)) df"

text \<open>
  Line 63: \<^verbatim>\<open>list(range(df.index[-1] + 1, df.index[-1] + 1 + n_years))\<close>. On an empty
  table \<^verbatim>\<open>df.index[-1]\<close> raises \<^verbatim>\<open>IndexError\<close>.
\<close>

definition forecast_years :: "frame \<Rightarrow> int \<Rightarrow> error + int list" where
  "forecast_years df n =
     (if df = [] then Inl IndexError
      else Inr [last (index df) + 1 .. last (index df) + 1 + n - 1])"

text \<open>Lines 50 to 63 in order: the GDP forecast, the CPIH forecast, the years.\<close>

definition forecast_stage ::
  "library \<Rightarrow> config \<Rightarrow> frame \<Rightarrow> error + real list \<times> (real \<times> real) list \<times> int list" where
  "forecast_stage L cfg df =
     (case arima_forecast L (col_gdp df) (gdp_order cfg) (n_years cfg) of
        Inl e \<Rightarrow> Inl e
      | Inr gdp_forecast \<Rightarrow>
          (case sarimax_forecast L (col_cpih df) (col_gdp df) (cpih_order cfg)
                  (n_years cfg) gdp_forecast of
             Inl e \<Rightarrow> Inl e
           | Inr (forecast, conf_int) \<Rightarrow>
               (case forecast_years df (n_years cfg) of
                  Inl e \<Rightarrow> Inl e
                | Inr years \<Rightarrow> Inr (forecast, conf_int, years))))"

section \<open>The page (main.py lines 7 to 88)\<close>

text \<open>
  What the script puts on the page, in order. A chart or table event records the
  arguments the script passes to the call; the spinners are gone when their block
  ends and are left out. The Streamlit calls themselves are taken not to raise.
\<close>

datatype event =
    Title string
  | Markdown string
  | FileUploader string
  | Subheader string
  | LineChart frame
  | Slider string
  | NumberInput string
  | Pyplot series "int list" "real list" "(real \<times> real) list"
  | Dataframe "int list" "real list" "(real \<times> real) list"
  | ErrorMsg error

fun is_chart :: "event \<Rightarrow> bool" where
  "is_chart (LineChart df) = True"
| "is_chart (Pyplot h ys fc ci) = True"
| "is_chart ev = False"

fun is_forecast_chart :: "event \<Rightarrow> bool" where
  "is_forecast_chart (Pyplot h ys fc ci) = True"
| "is_forecast_chart ev = False"

fun is_table :: "event \<Rightarrow> bool" where
  "is_table (Dataframe ys fc ci) = True"
| "is_table ev = False"

fun is_error :: "event \<Rightarrow> bool" where
  "is_error (ErrorMsg e) = True"
| "is_error ev = False"

text \<open>Lines 34 to 48: the historical chart and the input widgets.\<close>

definition historical :: "frame \<Rightarrow> event list" where
  "historical df =
     [Subheader ''Historical Data'', LineChart df,
      Slider ''Forecast horizon (years)'',
      NumberInput ''CPIH AR term (p)'', NumberInput ''CPIH Differencing (d)'',
      NumberInput ''CPIH MA term (q)'',
      NumberInput ''GDP AR term (p)'', NumberInput ''GDP Differencing (d)'',
      NumberInput ''GDP MA term (q)'']"

text \<open>
  Lines 66 to 85. \<^verbatim>\<open>ax.plot(forecast_years, forecast)\<close> and \<^verbatim>\<open>ax.fill_between\<close> raise
  \<^verbatim>\<open>ValueError\<close> when their arguments differ in length; by then the subheader is on
  the page. The result is the events rendered and the exception raised, if any.
\<close>

definition render_forecast ::
  "frame \<Rightarrow> real list \<Rightarrow> (real \<times> real) list \<Rightarrow> int list \<Rightarrow> event list \<times> error option" where
  "render_forecast df forecast conf_int years =
     (if length forecast = length years \<and> length conf_int = length years
      then ([Subheader ''CPIH Forecast'', Pyplot (col_cpih df) years forecast conf_int,
             Subheader ''Forecast Table'', Dataframe years forecast conf_int], None)
      else ([Subheader ''CPIH Forecast''], Some ValueError))"

text \<open>
  The body of the \<^verbatim>\<open>try\<close> block, lines 16 to 85: the events rendered, and the
  exception that ended the block, if one was raised.
\<close>

definition try_body :: "library \<Rightarrow> config \<Rightarrow> csv \<Rightarrow> csv \<Rightarrow> event list \<times> error option" where
  "try_body L cfg cpih_file gdp_file =
     (case align cpih_file gdp_file of
        Inl e \<Rightarrow> ([], Some e)
      | Inr df \<Rightarrow>
          (case forecast_stage L cfg df of
             Inl e \<Rightarrow> (historical df, Some e)
           | Inr (forecast, conf_int, years) \<Rightarrow>
               (case render_forecast df forecast conf_int years of
                  (shown, r) \<Rightarrow> (historical df @ shown, r))))"

text \<open>Lines 15 to 88: \<^verbatim>\<open>except Exception as e: st.error(...)\<close>.\<close>

definition pipeline :: "library \<Rightarrow> config \<Rightarrow> csv \<Rightarrow> csv \<Rightarrow> event list" where
  "pipeline L cfg cpih_file gdp_file =
     (case try_body L cfg cpih_file gdp_file of
        (shown, None) \<Rightarrow> shown
      | (shown, Some e) \<Rightarrow> shown @ [ErrorMsg e])"

text \<open>Lines 7 to 12: what is on the page before any file is looked at.\<close>

definition page_head :: "event list" where
  "page_head =
     [Title ''UK CPIH Inflation Forecast (with GDP Growth)'',
      Markdown ''Upload CPIH inflation and GDP growth data to forecast future inflation using ARIMAX.'',
      FileUploader ''Upload CPIH CSV file'',
      FileUploader ''Upload GDP Growth CSV file'']"

text \<open>
  The whole script. An uploader gives \<^verbatim>\<open>None\<close> until a file is chosen; an uploaded
  file object is truthy whatever it holds.
\<close>

definition app :: "library \<Rightarrow> config \<Rightarrow> csv option \<Rightarrow> csv option \<Rightarrow> event list" where
  "app L cfg cpih_file gdp_file =
     page_head @
     (case cpih_file of
        None \<Rightarrow> []
      | Some c \<Rightarrow> (case gdp_file of None \<Rightarrow> [] | Some g \<Rightarrow> pipeline L cfg c g))"

section \<open>The forecast interval\<close>

text \<open>
  Modelled from the spec: the computation behind \<^verbatim>\<open>forecast_res.conf_int()\<close> is inside
  statsmodels and is not source of this program. The spec gives it as the standard
  linear-Gaussian forecast interval at the 95% level, computed from the fitted model's
  estimated forecast error variance: the predicted mean minus and plus the normal
  quantile times the square root of that variance. The quantile is taken as 1.96.
\<close>

definition z95 :: real where
  "z95 = 1.96"

definition conf_int95 :: "real \<Rightarrow> real \<Rightarrow> real \<times> real" where
  "conf_int95 m v = (m - z95 * sqrt v, m + z95 * sqrt v)"

text \<open>
  Modelled from the spec: what the two fits estimate, before the interval is formed.
  \<open>arima_point\<close> is the GDP point forecast; \<open>sarimax_mean_var\<close> gives, for each future
  year, the predicted mean and the forecast error variance, or raises.
\<close>

record estimator =
  arima_point :: "series \<Rightarrow> int \<times> int \<times> int \<Rightarrow> int \<Rightarrow> error + real list"
  sarimax_mean_var ::
    "series \<Rightarrow> series \<Rightarrow> int \<times> int \<times> int \<Rightarrow> int \<Rightarrow> real list \<Rightarrow> error + (real \<times> real) list"

text \<open>
  Modelled from the spec: the library that lines 51 to 62 call, built from an
  estimator: \<^verbatim>\<open>predicted_mean\<close> is the list of means and \<^verbatim>\<open>conf_int()\<close> the list of
  their 95% intervals.
\<close>

definition statsmodels :: "estimator \<Rightarrow> library" where
  "statsmodels E =
     \<lparr>arima_forecast = arima_point E,
      sarimax_forecast = (\<lambda>s x ord n fx.
        case sarimax_mean_var E s x ord n fx of
          Inl e \<Rightarrow> Inl e
        | Inr mv \<Rightarrow> Inr (map fst mv, map (\<lambda>(m, v). conf_int95 m v) mv))\<rparr>"

text \<open>A point forecast lies between the bounds of its interval.\<close>

fun in_interval :: "real \<Rightarrow> real \<times> real \<Rightarrow> bool" where
  "in_interval m (lo, hi) = (lo \<le> m \<and> m \<le> hi)"

text \<open>In a forecast chart or table, every forecast lies in the interval beside it.\<close>

fun bounds_ordered :: "event \<Rightarrow> bool" where
  "bounds_ordered (Pyplot h ys fc ci) = list_all2 in_interval fc ci"
| "bounds_ordered (Dataframe ys fc ci) = list_all2 in_interval fc ci"
| "bounds_ordered ev = True"

section \<open>Inputs for evaluation\<close>

text \<open>
  Stand-ins for the statsmodels calls, used to run the script on concrete files: one
  whose fits always raise, one that raises when the differencing order is not below
  the number of observations, and one that never raises. The last two forecast by
  repeating the last observation.
\<close>

definition failing_library :: library where
  "failing_library =
     \<lparr>arima_forecast = (\<lambda>s ord n. Inl (LibraryError ''fit'')),
      sarimax_forecast = (\<lambda>s x ord n fx. Inl (LibraryError ''fit''))\<rparr>"

definition last_value :: "series \<Rightarrow> real" where
  "last_value s = (case rev s of [] \<Rightarrow> 0 | (y, v) # r \<Rightarrow> v)"

definition naive_library :: library where
  "naive_library =
     \<lparr>arima_forecast = (\<lambda>s ord n. Inr (replicate (nat n) (last_value s))),
      sarimax_forecast = (\<lambda>s x ord n fx.
        Inr (replicate (nat n) (last_value s),
             replicate (nat n) (last_value s - 1, last_value s + 1)))\<rparr>"

definition strict_library :: library where
  "strict_library =
     \<lparr>arima_forecast = (\<lambda>s ord n.
        case ord of (p, d, q) \<Rightarrow>
          if int (length s) \<le> d then Inl (LibraryError ''too few observations'')
          else arima_forecast naive_library s ord n),
      sarimax_forecast = (\<lambda>s x ord n fx.
        case ord of (p, d, q) \<Rightarrow>
          if int (length s) \<le> d then Inl (LibraryError ''too few observations'')
          else sarimax_forecast naive_library s x ord n fx)\<rparr>"

text \<open>An estimator that repeats the last observation with variance one.\<close>

definition flat_estimator :: estimator where
  "flat_estimator =
     \<lparr>arima_point = (\<lambda>s ord n. Inr (replicate (nat n) (last_value s))),
      sarimax_mean_var = (\<lambda>s x ord n fx. Inr (replicate (nat n) (last_value s, 1)))\<rparr>"

definition default_config :: config where
  "default_config = \<lparr>n_years = 5, cpih_order = (1, 1, 1), gdp_order = (1, 1, 1)\<rparr>"

text \<open>The six skipped lines and the line of column names of an inflation file.\<close>

definition cpih_head :: "line list" where
  "cpih_head =
     [(CText ''Title'', CText ''CPIH ANNUAL RATE''), (CText ''CDID'', CText ''L55O''),
      (CText ''Source dataset ID'', CText ''MM23''), (CText ''PreUnit'', CEmpty),
      (CText ''Unit'', CText ''%''), (CText ''Release date'', CText ''19-03-2025''),
      (CText ''Next release'', CText ''16 April 2025'')]"

definition gdp_head :: line where
  "gdp_head = (CText ''Year'', CText ''GDP growth'')"

text \<open>An inflation file for 2019 to 2021 with a trailing footnote line.\<close>

definition cpih_sample :: csv where
  "cpih_sample = cpih_head @
     [(CInt 2019, CFloat 1.7), (CInt 2020, CFloat 1), (CInt 2021, CFloat 2.5),
      (CText ''Source: ONS'', CEmpty)]"

text \<open>A GDP file for 2018 to 2020.\<close>

definition gdp_sample :: csv where
  "gdp_sample =
     [gdp_head, (CInt 2018, CFloat 1.4), (CInt 2019, CFloat 1.6), (CInt 2020, CFloat (- 10.4))]"

text \<open>A GDP file that shares no year with \<open>cpih_sample\<close>.\<close>

definition gdp_early :: csv where
  "gdp_early = [gdp_head, (CInt 2010, CFloat 2.2), (CInt 2011, CFloat 1.1)]"

text \<open>The GDP file with the footnote line the inflation file ends with.\<close>

definition gdp_footnote :: csv where
  "gdp_footnote = gdp_sample @ [(CText ''Source: ONS'', CEmpty)]"


text \<open>An inflation file with a year that is a number but not an integer.\<close>

definition cpih_fraction :: csv where
  "cpih_fraction = cpih_head @
     [(CFloat 2019.5, CFloat 1.7), (CInt 2020, CFloat 1), (CText ''Source: ONS'', CEmpty)]"

section \<open>The loaders\<close>

lemma astype_int_integers:
  "list_all (\<lambda>(y, v). is_int y) rows \<Longrightarrow>
   \<exists>rows'. astype_int d rows = Inr rows' \<and> map (\<lambda>(i, v). (CInt i, v)) rows' = rows"
proof (induction rows)
  case Nil
  then show ?case by simp
next
  case (Cons row rows)
  obtain y v where row: "row = (y, v)" by (cases row)
  from Cons.prems obtain i where y: "y = CInt i"
    by (cases y) (auto simp: row)
  from Cons obtain rows' where "astype_int d rows = Inr rows'"
    and "map (\<lambda>(i, v). (CInt i, v)) rows' = rows"
    by auto
  then show ?case by (simp add: row y)
qed

lemma set_coerce_dropna:
  "set (coerce_dropna rows) = {(i, x). \<exists>v. (i, v) \<in> set rows \<and> to_numeric v = Some x}"
  by (induction rows) (auto split: option.splits)

lemma length_coerce_dropna:
  "length (coerce_dropna rows) = length (filter (\<lambda>(i, v). to_numeric v \<noteq> None) rows)"
  by (induction rows) (auto split: option.splits)

lemma numeric_not_float: "to_numeric y \<noteq> None \<Longrightarrow> \<not> is_float y \<Longrightarrow> is_int y"
  by (cases y) auto

lemma length_filter_tagged:
  "length (filter (\<lambda>(i, v). to_numeric v \<noteq> None) rows')
     = length (filter (\<lambda>(y, v). is_int y \<and> to_numeric v \<noteq> None) (map (\<lambda>(i, v). (CInt i, v)) rows'))"
  by (induction rows') (auto split: prod.splits)

lemma int_is_numeric: "is_int y \<Longrightarrow> to_numeric y \<noteq> None"
  by (cases y) auto

lemma filter_numeric_year:
  "filter (\<lambda>(y, v). is_int y \<and> to_numeric v \<noteq> None) (filter (\<lambda>(y, v). to_numeric y \<noteq> None) rows)
     = filter (\<lambda>(y, v). is_int y \<and> to_numeric v \<noteq> None) rows"
proof (induction rows)
  case Nil
  then show ?case by simp
next
  case (Cons row rows)
  obtain y v where row: "row = (y, v)" by (cases row)
  show ?case
    using Cons.IH int_is_numeric [of y] by (auto simp: row)
qed

lemma sorted_sort_index: "sorted (map fst (sort_index s))"
  by (simp add: sort_index_def)


lemma load_gdp_sorted: "load_gdp f = Inr b \<Longrightarrow> sorted (map fst b)"
  by (auto simp: load_gdp_def Let_def sorted_sort_index split: sum.splits)

text \<open>
  A year that is not a number stops the GDP loader, whatever the column type: line 27
  converts the column with no filter before it.
\<close>

lemma astype_int_not_numeric:
  "list_ex (\<lambda>(y, v). to_numeric y = None) rows \<Longrightarrow> astype_int d rows = Inl ValueError"
proof (induction rows)
  case Nil
  then show ?case by simp
next
  case (Cons row rows)
  obtain y v where row: "row = (y, v)" by (cases row)
  show ?case
  proof (cases "cell_to_int d y")
    case (Inl e)
    then have "e = ValueError"
      by (cases d; cases y) auto
    with Inl show ?thesis by (simp add: row)
  next
    case (Inr i)
    then have "to_numeric y \<noteq> None"
      by (cases d; cases y) auto
    with Cons have "astype_int d rows = Inl ValueError"
      by (simp add: row)
    with Inr show ?thesis by (simp add: row)
  qed
qed

lemma load_gdp_not_numeric:
  "read_csv 0 f = Inr rows \<Longrightarrow> list_ex (\<lambda>(y, v). to_numeric y = None) rows \<Longrightarrow>
   load_gdp f = Inl ValueError"
  by (simp add: load_gdp_def astype_int_not_numeric)

text \<open>
  In a column of numbers only, a year that is not an integer is truncated by the
  inflation loader and its row stays.
\<close>

lemma load_cpih_truncates:
  "load_cpih (cpih_head @ [(CFloat 2019.5, CFloat 1.7), (CInt 2020, CFloat 1)])
     = Inr [(2019, 1.7), (2020, 1)]"
  by code_simp

section \<open>The join\<close>









lemma join_inner_disjoint:
  "fst ` set a \<inter> fst ` set b = {} \<Longrightarrow> join_inner a b = []"
proof (induction a)
  case Nil
  then show ?case by simp
next
  case (Cons row a)
  obtain y c where row: "row = (y, c)" by (cases row)
  from Cons.prems have "y \<notin> fst ` set b" and "fst ` set a \<inter> fst ` set b = {}"
    by (auto simp: row)
  moreover have "filter (\<lambda>(y', g). y' = y) b = []" if "y \<notin> fst ` set b"
    using that by (induction b) (auto split: prod.splits)
  ultimately show ?case using Cons.IH by (simp add: row)
qed

section \<open>The page\<close>

lemma no_error_historical: "\<not> list_ex is_error (historical df)"
  by (simp add: historical_def)

lemma no_forecast_chart_historical: "\<not> list_ex is_forecast_chart (historical df)"
  by (simp add: historical_def)

lemma no_table_historical: "\<not> list_ex is_table (historical df)"
  by (simp add: historical_def)

lemma chart_historical: "list_ex is_chart (historical df)"
  by (simp add: historical_def)

lemma render_forecast_raises:
  "render_forecast df fc ci ys = (shown, Some e) \<Longrightarrow> shown = [Subheader ''CPIH Forecast''] \<and> e = ValueError"
  by (auto simp: render_forecast_def split: if_splits)

lemma render_forecast_done:
  "render_forecast df fc ci ys = (shown, None) \<Longrightarrow>
     length fc = length ys \<and> length ci = length ys \<and>
     shown = [Subheader ''CPIH Forecast'', Pyplot (col_cpih df) ys fc ci,
              Subheader ''Forecast Table'', Dataframe ys fc ci]"
  by (auto simp: render_forecast_def split: if_splits)

lemma try_body_raises:
  assumes "try_body L cfg c g = (shown, Some e)"
  shows "(align c g = Inl e \<and> shown = [])
       \<or> (\<exists>df. align c g = Inr df \<and> forecast_stage L cfg df = Inl e \<and> shown = historical df)
       \<or> (\<exists>df fc ci ys. align c g = Inr df \<and> forecast_stage L cfg df = Inr (fc, ci, ys)
            \<and> render_forecast df fc ci ys = ([Subheader ''CPIH Forecast''], Some e)
            \<and> shown = historical df @ [Subheader ''CPIH Forecast''])"
proof (cases "align c g")
  case (Inl e')
  with assms show ?thesis by (simp add: try_body_def)
next
  case (Inr df)
  show ?thesis
  proof (cases "forecast_stage L cfg df")
    case (Inl e')
    with Inr assms show ?thesis by (simp add: try_body_def)
  next
    case fs: (Inr res)
    obtain fc ci ys where res: "res = (fc, ci, ys)" by (cases res)
    obtain sh r where rf: "render_forecast df fc ci ys = (sh, r)"
      by (cases "render_forecast df fc ci ys")
    from assms Inr fs res rf have "shown = historical df @ sh" and "r = Some e"
      by (simp_all add: try_body_def)
    with rf render_forecast_raises [of df fc ci ys sh e] Inr fs res show ?thesis
      by simp
  qed
qed

lemma forecast_stage_arima:
  "arima_forecast L (col_gdp df) (gdp_order cfg) (n_years cfg) = Inl e \<Longrightarrow> forecast_stage L cfg df = Inl e"
  by (simp add: forecast_stage_def)

lemma forecast_stage_sarimax:
  "arima_forecast L (col_gdp df) (gdp_order cfg) (n_years cfg) = Inr gf \<Longrightarrow>
   sarimax_forecast L (col_cpih df) (col_gdp df) (cpih_order cfg) (n_years cfg) gf = Inl e \<Longrightarrow>
   forecast_stage L cfg df = Inl e"
  by (simp add: forecast_stage_def)

lemma align_load_cpih: "load_cpih c = Inl e \<Longrightarrow> align c g = Inl e"
  by (simp add: align_def)

lemma align_load_gdp: "load_cpih c = Inr a \<Longrightarrow> load_gdp g = Inl e \<Longrightarrow> align c g = Inl e"
  by (simp add: align_def)

lemma pipeline_align_raises: "align c g = Inl e \<Longrightarrow> pipeline L cfg c g = [ErrorMsg e]"
  by (simp add: pipeline_def try_body_def)

lemma pipeline_forecast_raises:
  "align c g = Inr df \<Longrightarrow> forecast_stage L cfg df = Inl e \<Longrightarrow>
   pipeline L cfg c g = historical df @ [ErrorMsg e]"
  by (simp add: pipeline_def try_body_def)

lemma pipeline_render_raises:
  "align c g = Inr df \<Longrightarrow> forecast_stage L cfg df = Inr (fc, ci, ys) \<Longrightarrow>
   snd (render_forecast df fc ci ys) = Some e \<Longrightarrow>
   pipeline L cfg c g = (historical df @ [Subheader ''CPIH Forecast'']) @ [ErrorMsg e]"
  by (auto simp: pipeline_def try_body_def render_forecast_def split: if_splits)

lemma forecast_stage_empty: "\<exists>e. forecast_stage L cfg [] = Inl e"
  by (simp add: forecast_stage_def forecast_years_def split: sum.splits prod.splits)

lemma align_raises:
  "align c g = Inl e \<Longrightarrow>
   load_cpih c = Inl e \<or> (\<exists>a. load_cpih c = Inr a \<and> load_gdp g = Inl e)"
  by (auto simp: align_def split: sum.splits)

lemma in_interval_conf_int95: "0 \<le> v \<Longrightarrow> in_interval m (conf_int95 m v)"
  by (simp add: conf_int95_def z95_def)

lemma list_all2_in_interval:
  "list_all (\<lambda>(m, v). 0 \<le> v) mv \<Longrightarrow>
   list_all2 in_interval (map fst mv) (map (\<lambda>(m, v). conf_int95 m v) mv)"
  by (induction mv) (auto simp: in_interval_conf_int95)

lemma bounds_ordered_historical: "list_all bounds_ordered (historical df)"
  by (simp add: historical_def)

lemma try_body_done:
  assumes "try_body L cfg c g = (shown, None)"
  shows "\<exists>df fc ci ys. align c g = Inr df \<and> forecast_stage L cfg df = Inr (fc, ci, ys)
           \<and> length fc = length ys \<and> length ci = length ys
           \<and> shown = historical df @
               [Subheader ''CPIH Forecast'', Pyplot (col_cpih df) ys fc ci,
                Subheader ''Forecast Table'', Dataframe ys fc ci]"
proof (cases "align c g")
  case (Inl e)
  with assms show ?thesis by (simp add: try_body_def)
next
  case (Inr df)
  show ?thesis
  proof (cases "forecast_stage L cfg df")
    case (Inl e)
    with Inr assms show ?thesis by (simp add: try_body_def)
  next
    case fs: (Inr res)
    obtain fc ci ys where res: "res = (fc, ci, ys)" by (cases res)
    obtain sh r where rf: "render_forecast df fc ci ys = (sh, r)"
      by (cases "render_forecast df fc ci ys")
    from assms Inr fs res rf have "shown = historical df @ sh" and "r = None"
      by (simp_all add: try_body_def)
    with rf render_forecast_done [of df fc ci ys sh] Inr fs res show ?thesis
      by simp
  qed
qed

section \<open>Properties of a run\<close>

text \<open>
  C1, as the script has it. When a stage raises, the page shows what was rendered up
  to that point followed by the one error message, and the forecast chart and the
  forecast table are never on the page. When a loader raises, the page is the error
  message alone. When a fit or the forecast years raise, the page is the historical
  heading, the historical chart, the slider and the six number inputs, then the
  error message. When the plot raises, the forecast heading stands between the
  widgets and the error message. So the historical chart is on the page exactly
  when both files were loaded and joined.
\<close>

theorem failed_run_output:
  assumes "try_body L cfg c g = (shown, Some e)"
  shows "pipeline L cfg c g = shown @ [ErrorMsg e]
       \<and> \<not> list_ex is_forecast_chart (pipeline L cfg c g)
       \<and> \<not> list_ex is_table (pipeline L cfg c g)
       \<and> (list_ex is_chart (pipeline L cfg c g) \<longleftrightarrow> (\<exists>df. align c g = Inr df))
       \<and> ((load_cpih c = Inl e \<or> (\<exists>a. load_cpih c = Inr a \<and> load_gdp g = Inl e))
            \<and> pipeline L cfg c g = [ErrorMsg e]
          \<or> (\<exists>df. align c g = Inr df \<and> forecast_stage L cfg df = Inl e
                \<and> pipeline L cfg c g =
                    [Subheader ''Historical Data'', LineChart df,
                     Slider ''Forecast horizon (years)'',
                     NumberInput ''CPIH AR term (p)'', NumberInput ''CPIH Differencing (d)'',
                     NumberInput ''CPIH MA term (q)'',
                     NumberInput ''GDP AR term (p)'', NumberInput ''GDP Differencing (d)'',
                     NumberInput ''GDP MA term (q)'',
                     ErrorMsg e])
          \<or> (\<exists>df fc ci ys. align c g = Inr df \<and> forecast_stage L cfg df = Inr (fc, ci, ys)
                \<and> \<not> (length fc = length ys \<and> length ci = length ys) \<and> e = ValueError
                \<and> pipeline L cfg c g =
                    [Subheader ''Historical Data'', LineChart df,
                     Slider ''Forecast horizon (years)'',
                     NumberInput ''CPIH AR term (p)'', NumberInput ''CPIH Differencing (d)'',
                     NumberInput ''CPIH MA term (q)'',
                     NumberInput ''GDP AR term (p)'', NumberInput ''GDP Differencing (d)'',
                     NumberInput ''GDP MA term (q)'',
                     Subheader ''CPIH Forecast'', ErrorMsg e]))"
proof -
  have p: "pipeline L cfg c g = shown @ [ErrorMsg e]"
    using assms by (simp add: pipeline_def)
  from try_body_raises [OF assms] show ?thesis
  proof (elim disjE exE conjE)
    assume a: "align c g = Inl e" and s: "shown = []"
    from align_raises [OF a] a s show ?thesis
      by (simp add: p)
  next
    fix df assume a: "align c g = Inr df" and f: "forecast_stage L cfg df = Inl e"
      and s: "shown = historical df"
    have "pipeline L cfg c g = historical df @ [ErrorMsg e]"
      by (simp add: p s)
    then have full: "pipeline L cfg c g =
                    [Subheader ''Historical Data'', LineChart df,
                     Slider ''Forecast horizon (years)'',
                     NumberInput ''CPIH AR term (p)'', NumberInput ''CPIH Differencing (d)'',
                     NumberInput ''CPIH MA term (q)'',
                     NumberInput ''GDP AR term (p)'', NumberInput ''GDP Differencing (d)'',
                     NumberInput ''GDP MA term (q)'',
                     ErrorMsg e]"
      by (simp add: historical_def)
    have rest: "pipeline L cfg c g = shown @ [ErrorMsg e]
       \<and> \<not> list_ex is_forecast_chart (pipeline L cfg c g)
       \<and> \<not> list_ex is_table (pipeline L cfg c g)
       \<and> (list_ex is_chart (pipeline L cfg c g) \<longleftrightarrow> (\<exists>df. align c g = Inr df))"
      using a by (simp add: p s no_forecast_chart_historical no_table_historical chart_historical)
    from a f full have "\<exists>df. align c g = Inr df \<and> forecast_stage L cfg df = Inl e
                \<and> pipeline L cfg c g =
                    [Subheader ''Historical Data'', LineChart df,
                     Slider ''Forecast horizon (years)'',
                     NumberInput ''CPIH AR term (p)'', NumberInput ''CPIH Differencing (d)'',
                     NumberInput ''CPIH MA term (q)'',
                     NumberInput ''GDP AR term (p)'', NumberInput ''GDP Differencing (d)'',
                     NumberInput ''GDP MA term (q)'',
                     ErrorMsg e]"
      by blast
    with rest show ?thesis by blast
  next
    fix df fc ci ys
    assume a: "align c g = Inr df" and f: "forecast_stage L cfg df = Inr (fc, ci, ys)"
      and r: "render_forecast df fc ci ys = ([Subheader ''CPIH Forecast''], Some e)"
      and s: "shown = historical df @ [Subheader ''CPIH Forecast'']"
    from r have len: "\<not> (length fc = length ys \<and> length ci = length ys)" and e: "e = ValueError"
      by (auto simp: render_forecast_def split: if_splits)
    have full: "pipeline L cfg c g =
                    [Subheader ''Historical Data'', LineChart df,
                     Slider ''Forecast horizon (years)'',
                     NumberInput ''CPIH AR term (p)'', NumberInput ''CPIH Differencing (d)'',
                     NumberInput ''CPIH MA term (q)'',
                     NumberInput ''GDP AR term (p)'', NumberInput ''GDP Differencing (d)'',
                     NumberInput ''GDP MA term (q)'',
                     Subheader ''CPIH Forecast'', ErrorMsg e]"
      by (simp add: p s historical_def)
    have rest: "pipeline L cfg c g = shown @ [ErrorMsg e]
       \<and> \<not> list_ex is_forecast_chart (pipeline L cfg c g)
       \<and> \<not> list_ex is_table (pipeline L cfg c g)
       \<and> (list_ex is_chart (pipeline L cfg c g) \<longleftrightarrow> (\<exists>df. align c g = Inr df))"
      using a by (simp add: p s no_forecast_chart_historical no_table_historical chart_historical)
    from a f len e full have "\<exists>df fc ci ys. align c g = Inr df \<and> forecast_stage L cfg df = Inr (fc, ci, ys)
                \<and> \<not> (length fc = length ys \<and> length ci = length ys) \<and> e = ValueError
                \<and> pipeline L cfg c g =
                    [Subheader ''Historical Data'', LineChart df,
                     Slider ''Forecast horizon (years)'',
                     NumberInput ''CPIH AR term (p)'', NumberInput ''CPIH Differencing (d)'',
                     NumberInput ''CPIH MA term (q)'',
                     NumberInput ''GDP AR term (p)'', NumberInput ''GDP Differencing (d)'',
                     NumberInput ''GDP MA term (q)'',
                     Subheader ''CPIH Forecast'', ErrorMsg e]"
      by blast
    with rest show ?thesis by blast
  qed
qed

theorem failed_run_output_witness:
  "try_body failing_library default_config cpih_sample gdp_sample
     = (historical [(2019, 1.7, 1.6), (2020, 1, - 10.4)], Some (LibraryError ''fit''))
   \<and> pipeline failing_library default_config cpih_sample gdp_sample
     = historical [(2019, 1.7, 1.6), (2020, 1, - 10.4)] @ [ErrorMsg (LibraryError ''fit'')]
   \<and> \<not> list_ex is_forecast_chart (pipeline failing_library default_config cpih_sample gdp_sample)
   \<and> \<not> list_ex is_table (pipeline failing_library default_config cpih_sample gdp_sample)
   \<and> list_ex is_chart (pipeline failing_library default_config cpih_sample gdp_sample)"
proof -
  have h: "try_body failing_library default_config cpih_sample gdp_sample
             = (historical [(2019, 1.7, 1.6), (2020, 1, - 10.4)], Some (LibraryError ''fit''))"
    by code_simp
  have a: "align cpih_sample gdp_sample = Inr [(2019, 1.7, 1.6), (2020, 1, - 10.4)]"
    by code_simp
  from failed_run_output [OF h]
  have "pipeline failing_library default_config cpih_sample gdp_sample
          = historical [(2019, 1.7, 1.6), (2020, 1, - 10.4)] @ [ErrorMsg (LibraryError ''fit'')]"
    and "\<not> list_ex is_forecast_chart (pipeline failing_library default_config cpih_sample gdp_sample)"
    and "\<not> list_ex is_table (pipeline failing_library default_config cpih_sample gdp_sample)"
    and "list_ex is_chart (pipeline failing_library default_config cpih_sample gdp_sample)
           \<longleftrightarrow> (\<exists>df. align cpih_sample gdp_sample = Inr df)"
    by (rule conjunct1, rule conjunct2 [THEN conjunct1],
        rule conjunct2 [THEN conjunct2, THEN conjunct1],
        rule conjunct2 [THEN conjunct2, THEN conjunct2, THEN conjunct1])
  with h a show ?thesis by blast
qed

text \<open>
  C1 as stated fails: with both files loaded and a fit that raises, the historical
  chart is on the page together with the error message.
\<close>

theorem partial_output_counterexample:
  "snd (try_body failing_library default_config cpih_sample gdp_sample)
     = Some (LibraryError ''fit'')
   \<and> list_ex is_chart (pipeline failing_library default_config cpih_sample gdp_sample)
   \<and> list_ex is_error (pipeline failing_library default_config cpih_sample gdp_sample)"
  by code_simp




text \<open>
  C3: the GDP loader has no filter on the year, so the footnote line that the
  inflation loader discards makes the GDP loader raise, and the run ends with the
  error message alone. The inflation loader on the same data lines keeps the three
  years.
\<close>

theorem gdp_footnote_raises:
  "load_gdp gdp_footnote = Inl ValueError
   \<and> pipeline naive_library default_config cpih_sample gdp_footnote = [ErrorMsg ValueError]
   \<and> load_cpih (cpih_head @ tl gdp_footnote) = Inr [(2018, 1.4), (2019, 1.6), (2020, - 10.4)]"
  by code_simp

text \<open>
  C4, as the script has it. For an inflation file with a line of column names after
  the six skipped lines, and in which no year is a number that is not an integer:
  loading succeeds, a row survives exactly when its year is an integer and its value
  is a number, and the table is sorted by year.
\<close>

theorem load_cpih_integer_years:
  assumes "read_csv 6 f = Inr rows" and "list_all (\<lambda>(y, v). \<not> is_float y) rows"
  shows "\<exists>t. load_cpih f = Inr t
           \<and> (\<forall>i x. (i, x) \<in> set t \<longleftrightarrow> (\<exists>v. (CInt i, v) \<in> set rows \<and> to_numeric v = Some x))
           \<and> length t = length (filter (\<lambda>(y, v). is_int y \<and> to_numeric v \<noteq> None) rows)
           \<and> sorted (map fst t)"
proof -
  let ?kept = "filter (\<lambda>(y, v). to_numeric y \<noteq> None) rows"
  have ints: "list_all (\<lambda>(y, v). is_int y) ?kept"
    using assms(2) by (auto simp: list_all_iff intro: numeric_not_float)
  obtain rows' where as: "astype_int (infer_dtype (map fst rows)) ?kept = Inr rows'"
    and tag: "map (\<lambda>(i, v). (CInt i, v)) rows' = ?kept"
    using astype_int_integers [OF ints] by blast
  let ?t = "sort_index (coerce_dropna rows')"
  have ld: "load_cpih f = Inr ?t"
    using assms(1) as by (simp add: load_cpih_def)
  have mem: "(i, v) \<in> set rows' \<longleftrightarrow> (CInt i, v) \<in> set rows" for i v
  proof -
    have "(i, v) \<in> set rows' \<longleftrightarrow> (CInt i, v) \<in> set (map (\<lambda>(i, v). (CInt i, v)) rows')"
      by force
    also have "\<dots> \<longleftrightarrow> (CInt i, v) \<in> set rows"
      unfolding tag by simp
    finally show ?thesis .
  qed
  have st: "(i, x) \<in> set ?t \<longleftrightarrow> (\<exists>v. (CInt i, v) \<in> set rows \<and> to_numeric v = Some x)" for i x
    by (simp add: sort_index_def set_coerce_dropna mem)
  have "length ?t = length (filter (\<lambda>(i, v). to_numeric v \<noteq> None) rows')"
    by (simp only: sort_index_def length_sort length_coerce_dropna)
  also have "\<dots> = length (filter (\<lambda>(y, v). is_int y \<and> to_numeric v \<noteq> None)
                         (map (\<lambda>(i, v). (CInt i, v)) rows'))"
    by (rule length_filter_tagged)
  finally have "length ?t = length (filter (\<lambda>(y, v). is_int y \<and> to_numeric v \<noteq> None) ?kept)"
    by (simp only: tag)
  then have ln: "length ?t = length (filter (\<lambda>(y, v). is_int y \<and> to_numeric v \<noteq> None) rows)"
    by (simp only: filter_numeric_year)
  have so: "sorted (map fst ?t)"
    by (simp add: sort_index_def)
  show ?thesis
    using ld st ln so by blast
qed

theorem load_cpih_integer_years_witness:
  "read_csv 6 cpih_sample
     = Inr [(CInt 2019, CFloat 1.7), (CInt 2020, CFloat 1), (CInt 2021, CFloat 2.5),
            (CText ''Source: ONS'', CEmpty)]
   \<and> list_all (\<lambda>(y, v). \<not> is_float y)
        [(CInt 2019, CFloat 1.7), (CInt 2020, CFloat 1), (CInt 2021, CFloat 2.5),
         (CText ''Source: ONS'', CEmpty)]
   \<and> (\<exists>t. load_cpih cpih_sample = Inr t \<and> length t = 3 \<and> sorted (map fst t))"
proof -
  let ?rows = "[(CInt 2019, CFloat 1.7), (CInt 2020, CFloat 1), (CInt 2021, CFloat 2.5),
                (CText ''Source: ONS'', CEmpty)]"
  have h1: "read_csv 6 cpih_sample = Inr ?rows"
    by code_simp
  have h2: "list_all (\<lambda>(y, v). \<not> is_float y) ?rows"
    by code_simp
  have n: "length (filter (\<lambda>(y, v). is_int y \<and> to_numeric v \<noteq> None) ?rows) = 3"
    by code_simp
  from load_cpih_integer_years [OF h1 h2] n
  have "\<exists>t. load_cpih cpih_sample = Inr t \<and> length t = 3 \<and> sorted (map fst t)"
    by auto
  with h1 h2 show ?thesis by blast
qed

text \<open>
  C4 as stated fails: beside a footnote line, a year that is a number but not an
  integer is not discarded; the conversion of line 20 raises on it. Without that row
  the file loads.
\<close>

theorem fraction_year_counterexample:
  "load_cpih cpih_fraction = Inl ValueError
   \<and> load_cpih (cpih_head @ [(CInt 2020, CFloat 1), (CText ''Source: ONS'', CEmpty)])
       = Inr [(2020, 1)]"
  by code_simp

text \<open>
  C5. On a run that completes, the joined table is not empty and, with \<open>Y\<close> its last
  year and \<open>N\<close> the horizon, the years of the forecast chart and of the forecast
  table are \<open>[Y + 1 .. Y + N]\<close>, strictly ascending, \<open>N\<close> of them, with as many
  forecasts and as many interval rows.
\<close>

theorem forecast_years_of_run:
  assumes "align c g = Inr df" and "try_body L cfg c g = (shown, None)"
  shows "df \<noteq> []
       \<and> (\<exists>fc ci. shown = historical df @
              [Subheader ''CPIH Forecast'',
               Pyplot (col_cpih df) [last (index df) + 1 .. last (index df) + n_years cfg] fc ci,
               Subheader ''Forecast Table'',
               Dataframe [last (index df) + 1 .. last (index df) + n_years cfg] fc ci]
            \<and> length fc = nat (n_years cfg) \<and> length ci = nat (n_years cfg))
       \<and> sorted_wrt (<) [last (index df) + 1 .. last (index df) + n_years cfg]
       \<and> length [last (index df) + 1 .. last (index df) + n_years cfg] = nat (n_years cfg)"
proof -
  obtain fc ci ys where fs: "forecast_stage L cfg df = Inr (fc, ci, ys)"
    using assms by (auto simp: try_body_def split: sum.splits)
  then have fy: "forecast_years df (n_years cfg) = Inr ys"
    by (auto simp: forecast_stage_def split: sum.splits)
  then have ne: "df \<noteq> []"
    and ys: "ys = [last (index df) + 1 .. last (index df) + n_years cfg]"
    by (auto simp: forecast_years_def split: if_splits)
  obtain sh where rf: "render_forecast df fc ci ys = (sh, None)" and sh: "shown = historical df @ sh"
    using assms fs by (auto simp: try_body_def split: prod.splits)
  have len: "length ys = nat (n_years cfg)"
    by (simp add: ys)
  from render_forecast_done [OF rf] len sh ne show ?thesis
    unfolding ys [symmetric] by (auto simp: ys)
qed

theorem forecast_years_of_run_witness:
  "align cpih_sample gdp_sample = Inr [(2019, 1.7, 1.6), (2020, 1, - 10.4)]
   \<and> snd (try_body naive_library default_config cpih_sample gdp_sample) = None
   \<and> [last (index [(2019, 1.7, 1.6), (2020, 1, - 10.4)]) + 1 .. last (index [(2019, 1.7, 1.6), (2020, 1, - 10.4)]) + n_years default_config]
       = [2021, 2022, 2023, 2024, 2025]
   \<and> sorted_wrt (<) [last (index [(2019, 1.7, 1.6), (2020, 1, - 10.4)]) + 1 .. last (index [(2019, 1.7, 1.6), (2020, 1, - 10.4)]) + n_years default_config]"
proof -
  have h1: "align cpih_sample gdp_sample = Inr [(2019, 1.7, 1.6), (2020, 1, - 10.4)]"
    by code_simp
  obtain shown where h2: "try_body naive_library default_config cpih_sample gdp_sample = (shown, None)"
  proof -
    have "snd (try_body naive_library default_config cpih_sample gdp_sample) = None"
      by code_simp
    then show ?thesis
      using that by (cases "try_body naive_library default_config cpih_sample gdp_sample") auto
  qed
  have ys: "[last (index [(2019, 1.7, 1.6), (2020, 1, - 10.4)]) + 1 .. last (index [(2019, 1.7, 1.6), (2020, 1, - 10.4)]) + n_years default_config]
              = [2021, 2022, 2023, 2024, 2025]"
    by code_simp
  from forecast_years_of_run [OF h1 h2]
  have "sorted_wrt (<) [last (index [(2019, 1.7, 1.6), (2020, 1, - 10.4)]) + 1 .. last (index [(2019, 1.7, 1.6), (2020, 1, - 10.4)]) + n_years default_config]"
    by blast
  with h1 h2 ys show ?thesis by simp
qed

text \<open>
  C6. With the interval formed as the spec gives it and forecast error variances that
  are not negative, on every run that completes each point forecast lies between
  the lower and the upper bound of its year, in the forecast chart and in the
  forecast table.
\<close>

theorem interval_contains_forecast:
  assumes "try_body (statsmodels E) cfg c g = (shown, None)"
    and "\<forall>s x ord n fx mv. sarimax_mean_var E s x ord n fx = Inr mv
           \<longrightarrow> list_all (\<lambda>(m, v). 0 \<le> v) mv"
  shows "pipeline (statsmodels E) cfg c g = shown
       \<and> list_all bounds_ordered shown
       \<and> (\<exists>h ys fc ci. Pyplot h ys fc ci \<in> set shown \<and> Dataframe ys fc ci \<in> set shown
             \<and> length fc = length ys \<and> length ci = length ys
             \<and> (\<forall>i < length ys. fst (ci ! i) \<le> fc ! i \<and> fc ! i \<le> snd (ci ! i)))"
proof -
  have p: "pipeline (statsmodels E) cfg c g = shown"
    using assms(1) by (simp add: pipeline_def)
  from try_body_done [OF assms(1)] obtain df fc ci ys where
    fs: "forecast_stage (statsmodels E) cfg df = Inr (fc, ci, ys)"
    and len: "length fc = length ys" "length ci = length ys"
    and sh: "shown = historical df @
               [Subheader ''CPIH Forecast'', Pyplot (col_cpih df) ys fc ci,
                Subheader ''Forecast Table'', Dataframe ys fc ci]"
    by blast
  from fs obtain gf where
    sf: "sarimax_forecast (statsmodels E) (col_cpih df) (col_gdp df) (cpih_order cfg)
           (n_years cfg) gf = Inr (fc, ci)"
    by (auto simp: forecast_stage_def split: sum.splits)
  then obtain mv where
    mv: "sarimax_mean_var E (col_cpih df) (col_gdp df) (cpih_order cfg) (n_years cfg) gf = Inr mv"
    and fc: "fc = map fst mv" and ci: "ci = map (\<lambda>(m, v). conf_int95 m v) mv"
    by (auto simp: statsmodels_def split: sum.splits)
  have w: "list_all2 in_interval fc ci"
    unfolding fc ci using assms(2) mv by (intro list_all2_in_interval) blast
  have idx: "\<forall>i < length ys. fst (ci ! i) \<le> fc ! i \<and> fc ! i \<le> snd (ci ! i)"
  proof (intro allI impI)
    fix i assume "i < length ys"
    then have "in_interval (fc ! i) (ci ! i)"
      using w len by (simp add: list_all2_nthD)
    then show "fst (ci ! i) \<le> fc ! i \<and> fc ! i \<le> snd (ci ! i)"
      by (cases "ci ! i") simp
  qed
  have all: "list_all bounds_ordered shown"
    using w bounds_ordered_historical [of df] by (simp add: sh)
  have ev: "Pyplot (col_cpih df) ys fc ci \<in> set shown \<and> Dataframe ys fc ci \<in> set shown"
    by (simp add: sh)
  from p all ev len idx show ?thesis by blast
qed

theorem interval_contains_forecast_witness:
  "snd (try_body (statsmodels flat_estimator) default_config cpih_sample gdp_sample) = None
   \<and> sarimax_mean_var flat_estimator
         (col_cpih [(2019, 1.7, 1.6), (2020, 1, - 10.4)])
         (col_gdp [(2019, 1.7, 1.6), (2020, 1, - 10.4)]) (1, 1, 1) 5
         [- 10.4, - 10.4, - 10.4, - 10.4, - 10.4]
       = Inr [(1, 1), (1, 1), (1, 1), (1, 1), (1, 1)]
   \<and> list_all (\<lambda>(m, v). 0 \<le> v) [(1 :: real, 1 :: real), (1, 1), (1, 1), (1, 1), (1, 1)]
   \<and> list_all bounds_ordered
       (pipeline (statsmodels flat_estimator) default_config cpih_sample gdp_sample)
   \<and> list_ex is_table
       (pipeline (statsmodels flat_estimator) default_config cpih_sample gdp_sample)"
proof -
  have al: "align cpih_sample gdp_sample = Inr [(2019, 1.7, 1.6), (2020, 1, - 10.4)]"
    by code_simp
  have ys: "[last (index [(2019, 1.7, 1.6), (2020, 1, - 10.4)]) + 1 ..
             last (index [(2019, 1.7, 1.6), (2020, 1, - 10.4)]) + 1 + 5 - 1]
            = [2021, 2022, 2023, 2024, 2025]"
    by code_simp
  have ok: "snd (try_body (statsmodels flat_estimator) default_config cpih_sample gdp_sample)
              = None"
    by (simp add: try_body_def al forecast_stage_def statsmodels_def flat_estimator_def
          default_config_def forecast_years_def ys render_forecast_def)
  then obtain shown where
    h: "try_body (statsmodels flat_estimator) default_config cpih_sample gdp_sample = (shown, None)"
    by (cases "try_body (statsmodels flat_estimator) default_config cpih_sample gdp_sample") auto
  have nn: "\<forall>s x ord n fx mv. sarimax_mean_var flat_estimator s x ord n fx = Inr mv
               \<longrightarrow> list_all (\<lambda>(m, v). 0 \<le> v) mv"
    by (auto simp: flat_estimator_def list_all_iff)
  from interval_contains_forecast [OF h nn]
  have p: "pipeline (statsmodels flat_estimator) default_config cpih_sample gdp_sample = shown"
    and o: "list_all bounds_ordered shown"
    and t: "\<exists>h ys fc ci. Pyplot h ys fc ci \<in> set shown \<and> Dataframe ys fc ci \<in> set shown"
    by blast+
  from t have "list_ex is_table shown"
    by (auto simp: list_ex_iff intro!: bexI [where x = "Dataframe _ _ _"])
  have call: "sarimax_mean_var flat_estimator
         (col_cpih [(2019, 1.7, 1.6), (2020, 1, - 10.4)])
         (col_gdp [(2019, 1.7, 1.6), (2020, 1, - 10.4)]) (1, 1, 1) 5
         [- 10.4, - 10.4, - 10.4, - 10.4, - 10.4]
       = Inr [(1, 1), (1, 1), (1, 1), (1, 1), (1, 1)]"
    by code_simp
  have var: "list_all (\<lambda>(m, v). 0 \<le> v) [(1 :: real, 1 :: real), (1, 1), (1, 1), (1, 1), (1, 1)]"
    by simp
  from ok p o call var \<open>list_ex is_table shown\<close> show ?thesis
    by simp
qed

text \<open>
  C7, as the script has it. When the two cleaned sources share no year, the join
  gives an empty table and does not raise; the historical heading, the chart of the
  empty table and the input widgets are rendered; the forecasting stage then raises
  (a fit, or at the latest the last year of the empty index), the error message is
  shown, and there is no forecast chart and no forecast table.
\<close>

theorem no_overlap_run:
  assumes "load_cpih c = Inr a" and "load_gdp g = Inr b"
    and "fst ` set a \<inter> fst ` set b = {}"
  shows "align c g = Inr []
       \<and> (\<exists>e. forecast_stage L cfg [] = Inl e
              \<and> pipeline L cfg c g = historical [] @ [ErrorMsg e])
       \<and> \<not> list_ex is_forecast_chart (pipeline L cfg c g)
       \<and> \<not> list_ex is_table (pipeline L cfg c g)"
proof -
  have al: "align c g = Inr []"
    using assms by (simp add: align_def join_inner_disjoint)
  obtain e where e: "forecast_stage L cfg [] = Inl e"
    using forecast_stage_empty by blast
  have p: "pipeline L cfg c g = historical [] @ [ErrorMsg e]"
    using al e by (rule pipeline_forecast_raises)
  show ?thesis
    using al e p by (simp add: no_forecast_chart_historical no_table_historical)
qed

theorem no_overlap_run_witness:
  "load_cpih cpih_sample = Inr [(2019, 1.7), (2020, 1), (2021, 2.5)]
   \<and> load_gdp gdp_early = Inr [(2010, 2.2), (2011, 1.1)]
   \<and> fst ` set [(2019::int, 1.7::real), (2020, 1), (2021, 2.5)] \<inter> fst ` set [(2010::int, 2.2::real), (2011, 1.1)] = {}
   \<and> align cpih_sample gdp_early = Inr []
   \<and> (\<exists>e. pipeline naive_library default_config cpih_sample gdp_early
             = historical [] @ [ErrorMsg e])"
proof -
  have h1: "load_cpih cpih_sample = Inr [(2019, 1.7), (2020, 1), (2021, 2.5)]"
    by code_simp
  have h2: "load_gdp gdp_early = Inr [(2010, 2.2), (2011, 1.1)]"
    by code_simp
  have h3: "fst ` set [(2019::int, 1.7::real), (2020, 1), (2021, 2.5)] \<inter> fst ` set [(2010::int, 2.2::real), (2011, 1.1)] = {}"
    by simp
  from no_overlap_run [OF h1 h2 h3, of naive_library default_config]
  have "align cpih_sample gdp_early = Inr []
        \<and> (\<exists>e. pipeline naive_library default_config cpih_sample gdp_early
                  = historical [] @ [ErrorMsg e])"
    by blast
  with h1 h2 h3 show ?thesis by blast
qed

text \<open>
  C7 as stated fails: with no shared year the alignment does not fail, a chart (of the
  empty table) is rendered, and the error shown comes from the forecasting stage.
\<close>

theorem no_overlap_counterexample:
  "align cpih_sample gdp_early = Inr []
   \<and> list_ex is_chart (pipeline naive_library default_config cpih_sample gdp_early)
   \<and> pipeline naive_library default_config cpih_sample gdp_early
       = historical [] @ [ErrorMsg IndexError]"
  by code_simp

text \<open>
  C8. Whatever stage raises (a loader, either fit, the forecast years, the plot), the
  page of the run ends with the message of that exception, and it is the only error
  message on the page.
\<close>

theorem failure_is_caught:
  assumes "load_cpih c = Inl e
         \<or> (\<exists>a. load_cpih c = Inr a \<and> load_gdp g = Inl e)
         \<or> (\<exists>df. align c g = Inr df
               \<and> arima_forecast L (col_gdp df) (gdp_order cfg) (n_years cfg) = Inl e)
         \<or> (\<exists>df gf. align c g = Inr df
               \<and> arima_forecast L (col_gdp df) (gdp_order cfg) (n_years cfg) = Inr gf
               \<and> sarimax_forecast L (col_cpih df) (col_gdp df) (cpih_order cfg) (n_years cfg) gf = Inl e)
         \<or> (\<exists>df. align c g = Inr df \<and> forecast_stage L cfg df = Inl e)
         \<or> (\<exists>df fc ci ys. align c g = Inr df \<and> forecast_stage L cfg df = Inr (fc, ci, ys)
               \<and> snd (render_forecast df fc ci ys) = Some e)"
  shows "\<exists>shown. pipeline L cfg c g = shown @ [ErrorMsg e] \<and> \<not> list_ex is_error shown"
proof -
  have a: "\<exists>shown. pipeline L cfg c g = shown @ [ErrorMsg e] \<and> \<not> list_ex is_error shown"
    if "align c g = Inl e"
    using pipeline_align_raises [OF that, of L cfg] by simp
  have f: "\<exists>shown. pipeline L cfg c g = shown @ [ErrorMsg e] \<and> \<not> list_ex is_error shown"
    if "align c g = Inr df" "forecast_stage L cfg df = Inl e" for df
    using pipeline_forecast_raises [OF that] no_error_historical [of df] by blast
  have r: "\<exists>shown. pipeline L cfg c g = shown @ [ErrorMsg e] \<and> \<not> list_ex is_error shown"
    if "align c g = Inr df" "forecast_stage L cfg df = Inr (fc, ci, ys)"
       "snd (render_forecast df fc ci ys) = Some e" for df fc ci ys
  proof -
    have "\<not> list_ex is_error (historical df @ [Subheader ''CPIH Forecast''])"
      using no_error_historical [of df] by simp
    with pipeline_render_raises [OF that] show ?thesis by blast
  qed
  from assms show ?thesis
  proof (elim disjE exE conjE)
    assume "load_cpih c = Inl e"
    then show ?thesis by (intro a align_load_cpih)
  next
    fix a' assume "load_cpih c = Inr a'" "load_gdp g = Inl e"
    then show ?thesis by (intro a align_load_gdp)
  next
    fix df assume "align c g = Inr df"
      "arima_forecast L (col_gdp df) (gdp_order cfg) (n_years cfg) = Inl e"
    then show ?thesis by (intro f forecast_stage_arima)
  next
    fix df gf assume "align c g = Inr df"
      "arima_forecast L (col_gdp df) (gdp_order cfg) (n_years cfg) = Inr gf"
      "sarimax_forecast L (col_cpih df) (col_gdp df) (cpih_order cfg) (n_years cfg) gf = Inl e"
    then show ?thesis by (intro f forecast_stage_sarimax)
  next
    fix df assume "align c g = Inr df" "forecast_stage L cfg df = Inl e"
    then show ?thesis by (rule f)
  next
    fix df fc ci ys assume "align c g = Inr df" "forecast_stage L cfg df = Inr (fc, ci, ys)"
      "snd (render_forecast df fc ci ys) = Some e"
    then show ?thesis by (rule r)
  qed
qed

theorem failure_is_caught_witness:
  "align cpih_sample gdp_sample = Inr [(2019, 1.7, 1.6), (2020, 1, - 10.4)]
   \<and> arima_forecast strict_library (col_gdp [(2019, 1.7, 1.6), (2020, 1, - 10.4)])
        (gdp_order (default_config\<lparr>gdp_order := (1, 2, 1)\<rparr>))
        (n_years (default_config\<lparr>gdp_order := (1, 2, 1)\<rparr>))
      = Inl (LibraryError ''too few observations'')
   \<and> (\<exists>shown. pipeline strict_library (default_config\<lparr>gdp_order := (1, 2, 1)\<rparr>)
                  cpih_sample gdp_sample
                = shown @ [ErrorMsg (LibraryError ''too few observations'')]
              \<and> \<not> list_ex is_error shown)"
proof -
  let ?cfg = "default_config\<lparr>gdp_order := (1, 2, 1)\<rparr>"
  have h1: "align cpih_sample gdp_sample = Inr [(2019, 1.7, 1.6), (2020, 1, - 10.4)]"
    by code_simp
  have h2: "arima_forecast strict_library (col_gdp [(2019, 1.7, 1.6), (2020, 1, - 10.4)]) (gdp_order ?cfg) (n_years ?cfg)
              = Inl (LibraryError ''too few observations'')"
    by code_simp
  have "\<exists>df. align cpih_sample gdp_sample = Inr df
          \<and> arima_forecast strict_library (col_gdp df) (gdp_order ?cfg) (n_years ?cfg)
              = Inl (LibraryError ''too few observations'')"
    using h1 h2 by blast
  then have "\<exists>shown. pipeline strict_library ?cfg cpih_sample gdp_sample
                = shown @ [ErrorMsg (LibraryError ''too few observations'')]
              \<and> \<not> list_ex is_error shown"
    by (intro failure_is_caught) blast
  with h1 h2 show ?thesis by blast
qed

text \<open>
  C10. While either file is missing, the script renders the title, the text and the
  two uploaders and nothing else: no file is read, and there is no chart, no table
  and no error message.
\<close>

theorem no_run_without_both_files:
  assumes "cpih_file = None \<or> gdp_file = None"
  shows "app L cfg cpih_file gdp_file = page_head
       \<and> \<not> list_ex is_chart (app L cfg cpih_file gdp_file)
       \<and> \<not> list_ex is_table (app L cfg cpih_file gdp_file)
       \<and> \<not> list_ex is_error (app L cfg cpih_file gdp_file)"
proof -
  have "app L cfg cpih_file gdp_file = page_head"
    using assms by (auto simp: app_def split: option.splits)
  then show ?thesis by (simp add: page_head_def)
qed

theorem no_run_without_both_files_witness:
  "(None = (None :: csv option) \<or> Some gdp_sample = None)
   \<and> app naive_library default_config None (Some gdp_sample) = page_head"
  using no_run_without_both_files [of None "Some gdp_sample" naive_library default_config]
  by simp

end
